theory Spec2Isabelle
  imports Main
begin

section \<open>Error model (easy\_curl.h)\<close>

text \<open>\<open>enum class CurlAuthType { NONE, BASIC }\<close> is a scoped enumeration, so its
  underlying type is \<open>int\<close> and every value of that type is a value of the enumeration:
  \<open>NONE\<close> is 0, \<open>BASIC\<close> is 1, and \<open>static_cast<CurlAuthType>(n)\<close> is a value for any
  other \<open>n\<close> too.\<close>

datatype CurlAuthType = static_cast_CurlAuthType int

definition NONE :: CurlAuthType where
  "NONE = static_cast_CurlAuthType 0"

definition BASIC :: CurlAuthType where
  "BASIC = static_cast_CurlAuthType 1"

datatype ErrorCode =
    kOk | kNotFound | kCorruption | kNotSupported | kInvalidArgument | kIOError
  | kAlreadyPresent | kRuntimeError | kNetworkError | kIllegalState | kNotAuthorized
  | kAborted | kRemoteError | kServiceUnavailable | kTimedOut | kUninitialized
  | kConfigurationError | kIncomplete | kEndOfFile

record Error =
  code :: ErrorCode
  msg :: string

text \<open>The two constructors of \<open>struct Error\<close>: \<open>Error(code)\<close> leaves the message
  default-constructed (empty), \<open>Error(code, msg)\<close> stores both.\<close>

definition Error_code :: "ErrorCode \<Rightarrow> Error" where
  "Error_code c = \<lparr>code = c, msg = []\<rparr>"

definition Error_code_msg :: "ErrorCode \<Rightarrow> string \<Rightarrow> Error" where
  "Error_code_msg c m = \<lparr>code = c, msg = m\<rparr>"

section \<open>The transport (libcurl), as far as easy\_curl.cpp uses it\<close>

text \<open>
  libcurl is not part of the repository; the client only sees its return codes, the
  options it stores on the easy handle, the chunks it hands to the write callback, the
  text it leaves in the error buffer and the two numbers \<open>curl_easy_getinfo\<close> reports.
  These are the fields of \<open>libcurl\<close> below; every theorem quantifies over them.

  \<open>CURLcode\<close>: the three codes the client or this model distinguishes, and every other
  code by its number.
\<close>

datatype CURLcode = CURLE_OK | CURLE_WRITE_ERROR | CURLE_OPERATION_TIMEDOUT | CURLE_OTHER nat

datatype CURLoption =
    CURLOPT_ERRORBUFFER | CURLOPT_HTTPAUTH | CURLOPT_USERNAME | CURLOPT_PASSWORD
  | CURLOPT_VERBOSE | CURLOPT_FAILONERROR | CURLOPT_HTTPHEADER | CURLOPT_URL
  | CURLOPT_HEADER | CURLOPT_WRITEFUNCTION | CURLOPT_WRITEDATA | CURLOPT_POSTFIELDS
  | CURLOPT_NOSIGNAL | CURLOPT_TIMEOUT | CURLOPT_DNS_SERVERS

datatype curlauth = CURLAUTH_BASIC | CURLAUTH_ANY

text \<open>The values the client passes to \<open>curl_easy_setopt\<close>: a long; a C string, which
  libcurl copies; a \<open>curl_slist\<close>, which every call that reaches the transfer hands over
  afresh, so that a transfer sees the list of its own call; an auth bit mask; the
  write callback and the destination string, again handed over by every such call; the
  object's error buffer, registered once by the constructor; and a pointer into the
  caller's memory that libcurl keeps without copying and that only a POST hands over:
  \<open>CURLOPT_POSTFIELDS\<close> stores the address and reads the bytes behind it when a transfer
  runs.\<close>

type_synonym addr = nat

datatype optval =
    OptLong int | OptString string | OptSlist "string list" | OptAuth curlauth
  | OptWriteCallback | OptDst | OptErrbuf | OptPointer addr

text \<open>The caller's strings by address, as they are while a call runs. The address of a
  string that has since been changed or destroyed reads whatever is there now.\<close>

type_synonym memory = "addr \<Rightarrow> string"

text \<open>The easy handle \<open>CURL*\<close>: the options set on it. The handle is created once
  in the constructor and reused by every call; the constructor sets
  \<open>CURLOPT_ERRORBUFFER\<close> once and every later call relies on it, so an option stays on
  the handle until it is set again.\<close>

type_synonym CURL = "CURLoption \<rightharpoonup> optval"

datatype CURLINFO = CURLINFO_NUM_CONNECTS | CURLINFO_RESPONSE_CODE

text \<open>What one \<open>curl_easy_perform\<close> does: its return code, the header text and the
  body chunks of the response (each in arrival order), the diagnostic text of a failure,
  and what \<open>curl_easy_getinfo\<close> answers afterwards (return code and the \<open>long\<close> written
  to \<open>val\<close>).\<close>

record transfer =
  perform_code :: CURLcode
  header_text :: "string list"
  chunks :: "string list"
  detail :: string
  info :: "CURLINFO \<Rightarrow> CURLcode \<times> int"

record libcurl =
  global_init_code :: int
  easy_init_ok :: bool
  curl_easy_strerror :: "CURLcode \<Rightarrow> string"
  setopt_code :: "CURLoption \<Rightarrow> optval \<Rightarrow> CURLcode"
  transfer_of :: "CURL \<Rightarrow> transfer"

definition curl_easy_setopt :: "libcurl \<Rightarrow> CURL \<Rightarrow> CURLoption \<Rightarrow> optval \<Rightarrow> CURLcode \<times> CURL" where
  "curl_easy_setopt lib h opt v =
     (let rc = setopt_code lib opt v
      in (rc, if rc = CURLE_OK then h(opt \<mapsto> v) else h))"

text \<open>\<open>std::string::c_str()\<close> read as a C string: the characters before the first
  NUL.\<close>

definition c_str :: "string \<Rightarrow> string" where
  "c_str s = takeWhile (\<lambda>c. c \<noteq> CHR 0x00) s"

text \<open>The request as the transport sees it when the transfer runs: the options of the
  handle, with a kept pointer replaced by the C string found behind it at that time.\<close>

definition resolve :: "memory \<Rightarrow> optval \<Rightarrow> optval" where
  "resolve mem v = (case v of OptPointer p \<Rightarrow> OptString (c_str (mem p)) | _ \<Rightarrow> v)"

definition seen :: "memory \<Rightarrow> CURL \<Rightarrow> CURL" where
  "seen mem h = (\<lambda>opt. map_option (resolve mem) (h opt))"

definition curl_easy_getinfo :: "libcurl \<Rightarrow> memory \<Rightarrow> CURL \<Rightarrow> CURLINFO \<Rightarrow> CURLcode \<times> int" where
  "curl_easy_getinfo lib mem h i = info (transfer_of lib (seen mem h)) i"

text \<open>\<open>curl_slist_append\<close> copies the C string to the end of the list (allocation
  failure is not modelled).\<close>

definition curl_slist_append :: "string list \<Rightarrow> string \<Rightarrow> string list" where
  "curl_slist_append list s = list @ [s]"

section \<open>easy\_curl.cpp\<close>

text \<open>\<open>TranslateError(code, errbuf)\<close>; \<open>eb\<close> is the C string in \<open>errbuf\<close>, so
  \<open>strlen\<close> is its length.\<close>

definition TranslateError :: "libcurl \<Rightarrow> CURLcode \<Rightarrow> string \<Rightarrow> Error" where
  "TranslateError lib rc eb =
     (if rc = CURLE_OK then Error_code kOk
      else
        let err_msg = curl_easy_strerror lib rc;
            err_msg = (if length eb \<noteq> 0 then err_msg @ '': '' @ eb else err_msg)
        in if rc = CURLE_OPERATION_TIMEDOUT
           then Error_code_msg kTimedOut (''curl timeout'' @ err_msg)
           else Error_code_msg kNetworkError (''curl error'' @ err_msg))"

text \<open>\<open>WriteCallback(buffer, size, nmemb, user_ptr)\<close>: appends \<open>size * nmemb\<close> bytes
  of \<open>buffer\<close> to the string behind \<open>user_ptr\<close> and returns that number. The offered
  buffer exists in memory, so the product is its length and does not wrap.\<close>

definition WriteCallback :: "string \<Rightarrow> nat \<Rightarrow> nat \<Rightarrow> string \<Rightarrow> nat \<times> string" where
  "WriteCallback buffer sz nmemb buf =
     (let real_size = sz * nmemb
      in (real_size, buf @ take real_size buffer))"

text \<open>libcurl offers each chunk to the callback with \<open>size = 1\<close>; a callback that
  accepts fewer bytes than offered aborts the transfer with \<open>CURLE_WRITE_ERROR\<close>. What it
  offers is the body, preceded by the header text when \<open>CURLOPT_HEADER\<close> is 1 on the
  handle.\<close>

definition offered :: "CURL \<Rightarrow> transfer \<Rightarrow> string list" where
  "offered h t =
     (if h CURLOPT_HEADER = Some (OptLong 1) then header_text t @ chunks t else chunks t)"

fun deliver :: "string list \<Rightarrow> string \<Rightarrow> bool \<times> string" where
  "deliver [] buf = (True, buf)"
| "deliver (c # cs) buf =
     (let (n, buf') = WriteCallback c 1 (length c) buf
      in if n \<noteq> length c then (False, buf') else deliver cs buf')"

text \<open>\<open>curl_easy_perform\<close> reaches the client's data only through what the handle
  holds. The response goes through \<open>WriteCallback\<close> into the destination string of the
  call when lines 159-160 have registered both on the handle; otherwise libcurl writes
  it to its default target and the destination stays as it is. The diagnostic text goes
  into \<open>errbuf_\<close> when the constructor has registered that buffer. \<open>buf\<close> and \<open>eb\<close> are
  the destination and the error buffer before the transfer.\<close>

definition curl_easy_perform ::
  "libcurl \<Rightarrow> memory \<Rightarrow> CURL \<Rightarrow> string \<Rightarrow> string \<Rightarrow> CURLcode \<times> string \<times> string" where
  "curl_easy_perform lib mem h buf eb =
     (let t = transfer_of lib (seen mem h);
          eb' = (if h CURLOPT_ERRORBUFFER = Some OptErrbuf then detail t else eb)
      in if h CURLOPT_WRITEFUNCTION = Some OptWriteCallback \<and> h CURLOPT_WRITEDATA = Some OptDst
         then
           let (ok, buf') = deliver (offered h t) buf
           in (if \<not> ok then CURLE_WRITE_ERROR else perform_code t, buf', eb')
         else (perform_code t, buf, eb'))"

text \<open>The object. The members keep their names without the trailing underscore;
  \<open>errbuf\<close> is the C string held in \<open>char errbuf_[kErrBufSize]\<close>, and
  \<open>num_connects\<close> is both the member and its getter \<open>num_connects()\<close>.\<close>

record EasyCurl =
  curl :: CURL
  return_headers :: bool
  verbose :: bool
  fail_on_http_error :: bool
  timeout_secs :: int
  dns_servers :: string
  num_connects :: int
  errbuf :: string
  username :: string
  password :: string
  auth_type :: CurlAuthType

text \<open>The constructor exits the process (\<open>None\<close>) when the global initialisation, the
  handle creation or the registration of the error buffer fails. \<open>errbuf_\<close> has no
  initialiser: its contents after construction are the parameter \<open>uninit\<close>.\<close>

definition EasyCurl_ctor :: "libcurl \<Rightarrow> string \<Rightarrow> EasyCurl option" where
  "EasyCurl_ctor lib uninit =
     (if global_init_code lib \<noteq> 0 then None
      else if \<not> easy_init_ok lib then None
      else
        let (rc, h) = curl_easy_setopt lib Map.empty CURLOPT_ERRORBUFFER OptErrbuf
        in if rc \<noteq> CURLE_OK then None
           else Some \<lparr>curl = h, return_headers = False, verbose = False,
                      fail_on_http_error = False, timeout_secs = - 1, dns_servers = [],
                      num_connects = 0, errbuf = uninit, username = [], password = [],
                      auth_type = NONE\<rparr>)"

subsection \<open>Setters (easy\_curl.h)\<close>

definition set_return_headers :: "EasyCurl \<Rightarrow> bool \<Rightarrow> EasyCurl" where
  "set_return_headers this v = this\<lparr>return_headers := v\<rparr>"

definition set_timeout :: "EasyCurl \<Rightarrow> int \<Rightarrow> EasyCurl" where
  "set_timeout this secs = this\<lparr>timeout_secs := secs\<rparr>"

definition set_dns_servers :: "EasyCurl \<Rightarrow> string \<Rightarrow> EasyCurl" where
  "set_dns_servers this servers = this\<lparr>dns_servers := servers\<rparr>"

text \<open>\<open>set_auth(auth_type, username = "", password = "")\<close>: an omitted argument is
  \<open>None\<close> and takes the default, the empty string.\<close>

definition default_arg :: "string option \<Rightarrow> string" where
  "default_arg a = (case a of None \<Rightarrow> [] | Some s \<Rightarrow> s)"

definition set_auth :: "EasyCurl \<Rightarrow> CurlAuthType \<Rightarrow> string option \<Rightarrow> string option \<Rightarrow> Error \<times> EasyCurl" where
  "set_auth this a u p =
     (Error_code kOk,
      this\<lparr>auth_type := a, username := default_arg u, password := default_arg p\<rparr>)"

definition set_verbose :: "EasyCurl \<Rightarrow> bool \<Rightarrow> EasyCurl" where
  "set_verbose this v = this\<lparr>verbose := v\<rparr>"

definition set_fail_on_http_error :: "EasyCurl \<Rightarrow> bool \<Rightarrow> EasyCurl" where
  "set_fail_on_http_error this v = this\<lparr>fail_on_http_error := v\<rparr>"

subsection \<open>DoRequest\<close>

text \<open>A run of \<open>CURL_RETURN_NOT_OK(curl_easy_setopt(curl_, opt, v))\<close> statements: each
  sets its option, translates the return code with the object's error buffer and
  returns the error at once when it is not \<open>kOk\<close>.\<close>

fun setopts :: "libcurl \<Rightarrow> string \<Rightarrow> (CURLoption \<times> optval) list \<Rightarrow> CURL \<Rightarrow> Error option \<times> CURL" where
  "setopts lib eb [] h = (None, h)"
| "setopts lib eb ((opt, v) # rest) h =
     (let (rc, h') = curl_easy_setopt lib h opt v;
          error = TranslateError lib rc eb
      in if code error \<noteq> kOk then (Some error, h') else setopts lib eb rest h')"

text \<open>Lines 120-135: the \<open>switch\<close> on \<open>auth_type_\<close> with its \<open>default\<close> branch, then
  the credentials.\<close>

definition auth_options :: "EasyCurl \<Rightarrow> (CURLoption \<times> optval) list" where
  "auth_options this =
     (if auth_type this = BASIC then [(CURLOPT_HTTPAUTH, OptAuth CURLAUTH_BASIC)]
      else if auth_type this = NONE then []
      else [(CURLOPT_HTTPAUTH, OptAuth CURLAUTH_ANY)]) @
     (if auth_type this \<noteq> NONE
      then [(CURLOPT_USERNAME, OptString (c_str (username this))),
            (CURLOPT_PASSWORD, OptString (c_str (password this)))]
      else [])"

text \<open>Lines 137-142.\<close>

definition flag_options :: "EasyCurl \<Rightarrow> (CURLoption \<times> optval) list" where
  "flag_options this =
     (if verbose this then [(CURLOPT_VERBOSE, OptLong 1)] else []) @
     (if fail_on_http_error this then [(CURLOPT_FAILONERROR, OptLong 1)] else [])"

text \<open>Lines 150-152: the loop over \<open>headers\<close>.\<close>

definition build_headers :: "string list \<Rightarrow> string list" where
  "build_headers headers =
     foldl (\<lambda>curl_headers header. curl_slist_append curl_headers (c_str header)) [] headers"

text \<open>Lines 153-173. \<open>post_data\<close> is the pointer \<open>const string* post_data\<close> (\<open>None\<close> is
  \<open>nullptr\<close>); \<open>post_data->c_str()\<close> is handed to \<open>CURLOPT_POSTFIELDS\<close> as that
  address.\<close>

definition transfer_options ::
  "EasyCurl \<Rightarrow> string \<Rightarrow> addr option \<Rightarrow> string list \<Rightarrow> (CURLoption \<times> optval) list" where
  "transfer_options this url post_data curl_headers =
     [(CURLOPT_HTTPHEADER, OptSlist curl_headers),
      (CURLOPT_URL, OptString (c_str url))] @
     (if return_headers this then [(CURLOPT_HEADER, OptLong 1)] else []) @
     [(CURLOPT_WRITEFUNCTION, OptWriteCallback),
      (CURLOPT_WRITEDATA, OptDst)] @
     (case post_data of
        None \<Rightarrow> []
      | Some p \<Rightarrow> [(CURLOPT_POSTFIELDS, OptPointer p)]) @
     (if timeout_secs this > 0
      then [(CURLOPT_NOSIGNAL, OptLong 1), (CURLOPT_TIMEOUT, OptLong (timeout_secs this))]
      else []) @
     (if dns_servers this \<noteq> []
      then [(CURLOPT_DNS_SERVERS, OptString (c_str (dns_servers this)))]
      else [])"

text \<open>\<open>static_cast<int>(val)\<close> of a 64-bit \<open>long\<close>: the low 32 bits, read as signed.\<close>

definition static_cast_int :: "int \<Rightarrow> int" where
  "static_cast_int v = (v + 2 ^ 31) mod 2 ^ 32 - 2 ^ 31"

text \<open>\<open>"HTTP " + val\<close> adds a \<open>long\<close> to the address of a string literal of six bytes
  (five characters and the terminator). The string built from that pointer is the rest of
  the literal when \<open>0 \<le> val \<le> 5\<close>; any other \<open>val\<close> points outside the literal, and
  reading there is undefined (\<open>None\<close>).\<close>

definition HTTP_plus :: "int \<Rightarrow> string option" where
  "HTTP_plus val = (if 0 \<le> val \<and> val \<le> 5 then Some (drop (nat val) ''HTTP '') else None)"

datatype outcome = Returned Error | Undefined

text \<open>What a call leaves behind: what it returned, the object, the destination string,
  and the lists handed to \<open>curl_slist_free_all\<close>, in order.\<close>

record call =
  ret :: outcome
  self :: EasyCurl
  dst :: string
  released :: "string list list"

text \<open>Modelled from the spec: \<open>scoped_cleanup.h\<close> (\<open>MakeScopedCleanup\<close>) is not among the
  sources. The spec has the header list "released on every exit path, success or
  failure" of the scope that owns it: whatever the guarded block returns, the cleanup
  \<open>curl_slist_free_all(curl_headers)\<close> has run once when control leaves it.\<close>

definition MakeScopedCleanup :: "string list \<Rightarrow> call \<Rightarrow> call" where
  "MakeScopedCleanup curl_headers c = c\<lparr>released := released c @ [curl_headers]\<rparr>"

text \<open>Lines 175-184, after every option has been set.\<close>

definition perform_and_classify :: "libcurl \<Rightarrow> memory \<Rightarrow> EasyCurl \<Rightarrow> string \<Rightarrow> call" where
  "perform_and_classify lib mem this buf =
     (let (rc, buf', eb) = curl_easy_perform lib mem (curl this) buf (errbuf this);
          this = this\<lparr>errbuf := eb\<rparr>;
          error = TranslateError lib rc (errbuf this)
      in if code error \<noteq> kOk
         then \<lparr>ret = Returned error, self = this, dst = buf', released = []\<rparr>
         else
           let (rc, val) = curl_easy_getinfo lib mem (curl this) CURLINFO_NUM_CONNECTS;
               error = TranslateError lib rc (errbuf this)
           in if code error \<noteq> kOk
              then \<lparr>ret = Returned error, self = this, dst = buf', released = []\<rparr>
              else
                let this = this\<lparr>num_connects := static_cast_int val\<rparr>;
                    (rc, val) = curl_easy_getinfo lib mem (curl this) CURLINFO_RESPONSE_CODE;
                    error = TranslateError lib rc (errbuf this)
                in if code error \<noteq> kOk
                   then \<lparr>ret = Returned error, self = this, dst = buf', released = []\<rparr>
                   else if val < 200 \<or> val \<ge> 300
                   then (case HTTP_plus val of
                           None \<Rightarrow> \<lparr>ret = Undefined, self = this, dst = buf', released = []\<rparr>
                         | Some m \<Rightarrow>
                             \<lparr>ret = Returned (Error_code_msg kRemoteError m), self = this,
                              dst = buf', released = []\<rparr>)
                   else \<lparr>ret = Returned (Error_code kOk), self = this, dst = buf',
                         released = []\<rparr>)"

text \<open>\<open>DoRequest(url, post_data, dst, headers)\<close>; \<open>mem\<close> is the caller's memory during
  the call and \<open>dst0\<close> what the destination held before it (\<open>dst\<close> is never null here:
  the assertion of line 115 holds).\<close>

definition DoRequest ::
  "libcurl \<Rightarrow> memory \<Rightarrow> EasyCurl \<Rightarrow> string \<Rightarrow> addr option \<Rightarrow> string \<Rightarrow> string list \<Rightarrow> call" where
  "DoRequest lib mem this url post_data dst0 headers =
     (let buf = [];
          this = this\<lparr>errbuf := []\<rparr>
      in case setopts lib (errbuf this) (auth_options this @ flag_options this) (curl this) of
           (Some error, h) \<Rightarrow>
             \<lparr>ret = Returned error, self = this\<lparr>curl := h\<rparr>, dst = buf, released = []\<rparr>
         | (None, h) \<Rightarrow>
             let curl_headers = build_headers headers
             in MakeScopedCleanup curl_headers
                  (case setopts lib (errbuf this)
                          (transfer_options this url post_data curl_headers) h of
                     (Some error, h') \<Rightarrow>
                       \<lparr>ret = Returned error, self = this\<lparr>curl := h'\<rparr>, dst = buf,
                        released = []\<rparr>
                   | (None, h') \<Rightarrow> perform_and_classify lib mem (this\<lparr>curl := h'\<rparr>) buf))"

text \<open>\<open>FetchURL\<close> passes \<open>nullptr\<close>, \<open>PostToURL\<close> the address of its \<open>post_data\<close>.\<close>

definition FetchURL ::
  "libcurl \<Rightarrow> memory \<Rightarrow> EasyCurl \<Rightarrow> string \<Rightarrow> string \<Rightarrow> string list \<Rightarrow> call" where
  "FetchURL lib mem this url dst0 headers = DoRequest lib mem this url None dst0 headers"

definition PostToURL ::
  "libcurl \<Rightarrow> memory \<Rightarrow> EasyCurl \<Rightarrow> string \<Rightarrow> addr \<Rightarrow> string \<Rightarrow> string list \<Rightarrow> call" where
  "PostToURL lib mem this url post_data dst0 headers =
     DoRequest lib mem this url (Some post_data) dst0 headers"

section \<open>Definitions used to state the properties\<close>

text \<open>The transport diagnostic in the spec's words: the generic code-to-text string,
  extended with \<open>": "\<close> and the per-request detail exactly when the detail is
  non-empty.\<close>

definition transport_diagnostic :: "libcurl \<Rightarrow> CURLcode \<Rightarrow> string \<Rightarrow> string" where
  "transport_diagnostic lib rc eb =
     (if eb \<noteq> [] then curl_easy_strerror lib rc @ '': '' @ eb else curl_easy_strerror lib rc)"

text \<open>A concrete transport for closed instances: every option is accepted, the
  transfer ends with code \<open>rc\<close>, its response has one header line and a body of two
  chunks, and \<open>curl_easy_getinfo\<close> reports \<open>connects\<close> new connections and the HTTP
  status \<open>status\<close>.\<close>

definition example_strerror :: "CURLcode \<Rightarrow> string" where
  "example_strerror rc =
     (case rc of
        CURLE_OK \<Rightarrow> ''No error''
      | CURLE_WRITE_ERROR \<Rightarrow> ''Failed writing received data to disk/application''
      | CURLE_OPERATION_TIMEDOUT \<Rightarrow> ''Timeout was reached''
      | CURLE_OTHER n \<Rightarrow> ''Error'')"

definition example_lib :: "CURLcode \<Rightarrow> int \<Rightarrow> int \<Rightarrow> libcurl" where
  "example_lib rc connects status =
     \<lparr>global_init_code = 0, easy_init_ok = True, curl_easy_strerror = example_strerror,
      setopt_code = (\<lambda>opt v. CURLE_OK),
      transfer_of = (\<lambda>h.
        \<lparr>perform_code = rc,
         header_text = [''Content-Type: text/plain'' @ [CHR 0x0D, CHR 0x0A]],
         chunks = [''Hello, '', ''world''],
         detail = (if rc = CURLE_OK then [] else ''connection refused''),
         info = (\<lambda>i. case i of CURLINFO_NUM_CONNECTS \<Rightarrow> (CURLE_OK, connects)
                               | CURLINFO_RESPONSE_CODE \<Rightarrow> (CURLE_OK, status))\<rparr>)\<rparr>"

text \<open>A transport that answers every request with status 200 and, as body, the
  C string it finds as \<open>CURLOPT_POSTFIELDS\<close>, or \<open>"GET"\<close> when the request has none.\<close>

definition echo_lib :: libcurl where
  "echo_lib =
     \<lparr>global_init_code = 0, easy_init_ok = True, curl_easy_strerror = example_strerror,
      setopt_code = (\<lambda>opt v. CURLE_OK),
      transfer_of = (\<lambda>h.
        \<lparr>perform_code = CURLE_OK, header_text = [],
         chunks = (case h CURLOPT_POSTFIELDS of Some (OptString b) \<Rightarrow> [b] | _ \<Rightarrow> [''GET'']),
         detail = [],
         info = (\<lambda>i. case i of CURLINFO_NUM_CONNECTS \<Rightarrow> (CURLE_OK, 1)
                               | CURLINFO_RESPONSE_CODE \<Rightarrow> (CURLE_OK, 200))\<rparr>)\<rparr>"

text \<open>A caller's memory in which every address holds the same string.\<close>

definition all_memory :: "string \<Rightarrow> memory" where
  "all_memory s = (\<lambda>p. s)"

text \<open>A transport that refuses one option (with a code other than the timeout) and
  accepts every other.\<close>

definition refusing_lib :: "CURLoption \<Rightarrow> libcurl" where
  "refusing_lib refused =
     (example_lib CURLE_OK 1 200)
       \<lparr>setopt_code := (\<lambda>opt v. if opt = refused then CURLE_OTHER 4 else CURLE_OK)\<rparr>"

text \<open>The object as the constructor leaves it (with an empty error buffer), the same
  object with every optional setting switched on, and the setter calls that switch
  them all off again.\<close>

definition fresh_client :: EasyCurl where
  "fresh_client =
     \<lparr>curl = [CURLOPT_ERRORBUFFER \<mapsto> OptErrbuf], return_headers = False, verbose = False,
      fail_on_http_error = False, timeout_secs = - 1, dns_servers = [],
      num_connects = 0, errbuf = [], username = [], password = [], auth_type = NONE\<rparr>"

definition configured_client :: EasyCurl where
  "configured_client =
     set_dns_servers
       (set_timeout
          (set_return_headers
             (set_fail_on_http_error (set_verbose fresh_client True) True) True) 30)
       ''192.0.2.1''"

definition switch_off :: "EasyCurl \<Rightarrow> EasyCurl" where
  "switch_off this =
     set_dns_servers
       (set_timeout
          (set_return_headers
             (set_fail_on_http_error (set_verbose this False) False) False) 0)
       []"

text \<open>Every \<open>curl_easy_setopt\<close> of a list returns \<open>CURLE_OK\<close>.\<close>

definition options_accepted :: "libcurl \<Rightarrow> (CURLoption \<times> optval) list \<Rightarrow> bool" where
  "options_accepted lib opts = list_all (\<lambda>(opt, v). setopt_code lib opt v = CURLE_OK) opts"

text \<open>All options one call of \<open>DoRequest\<close> sets, in the order of the source; the
  handle as it is when every one of them was accepted, which is the handle
  \<open>curl_easy_perform\<close> runs on; and the transfer the transport makes of what it sees
  there.\<close>

definition request_options ::
  "EasyCurl \<Rightarrow> string \<Rightarrow> addr option \<Rightarrow> string list \<Rightarrow> (CURLoption \<times> optval) list" where
  "request_options this url post_data headers =
     auth_options this @ flag_options this @
     transfer_options this url post_data (build_headers headers)"

definition handle_at_perform :: "EasyCurl \<Rightarrow> string \<Rightarrow> addr option \<Rightarrow> string list \<Rightarrow> CURL" where
  "handle_at_perform this url post_data headers =
     curl this ++ map_of (rev (request_options this url post_data headers))"

definition transfer_at ::
  "libcurl \<Rightarrow> memory \<Rightarrow> EasyCurl \<Rightarrow> string \<Rightarrow> addr option \<Rightarrow> string list \<Rightarrow> transfer" where
  "transfer_at lib mem this url post_data headers =
     transfer_of lib (seen mem (handle_at_perform this url post_data headers))"

text \<open>What the destination and the error buffer hold after a transfer \<open>t\<close> on the
  handle \<open>h\<close>, given what they held before.\<close>

definition written :: "CURL \<Rightarrow> transfer \<Rightarrow> string \<Rightarrow> string" where
  "written h t buf =
     (if h CURLOPT_WRITEFUNCTION = Some OptWriteCallback \<and> h CURLOPT_WRITEDATA = Some OptDst
      then buf @ concat (offered h t) else buf)"

definition errbuf_after :: "CURL \<Rightarrow> transfer \<Rightarrow> string \<Rightarrow> string" where
  "errbuf_after h t eb = (if h CURLOPT_ERRORBUFFER = Some OptErrbuf then detail t else eb)"

text \<open>The chunks the transport delivers to the write callback in that transfer.\<close>

definition delivered ::
  "libcurl \<Rightarrow> memory \<Rightarrow> EasyCurl \<Rightarrow> string \<Rightarrow> addr option \<Rightarrow> string list \<Rightarrow> string list" where
  "delivered lib mem this url post_data headers =
     offered (handle_at_perform this url post_data headers)
       (transfer_at lib mem this url post_data headers)"

section \<open>Basic facts\<close>

lemma NONE_neq_BASIC [simp]: "NONE \<noteq> BASIC" "BASIC \<noteq> NONE"
  by (simp_all add: NONE_def BASIC_def)

lemma EasyCurl_ctor_example: "EasyCurl_ctor (example_lib rc n c) [] = Some fresh_client"
  by (simp add: EasyCurl_ctor_def example_lib_def curl_easy_setopt_def fresh_client_def)

lemma TranslateError_ok_iff: "code (TranslateError lib rc eb) = kOk \<longleftrightarrow> rc = CURLE_OK"
  by (simp add: TranslateError_def Error_code_def Error_code_msg_def Let_def)

lemma c_str_id: "CHR 0x00 \<notin> set s \<Longrightarrow> c_str s = s"
  by (auto simp: c_str_def)

lemma static_cast_int_id: "0 \<le> n \<Longrightarrow> n < 2 ^ 31 \<Longrightarrow> static_cast_int n = n"
  by (simp add: static_cast_int_def)

lemma build_headers_map: "build_headers headers = map c_str headers"
proof -
  have "foldl (\<lambda>l header. curl_slist_append l (c_str header)) acc headers = acc @ map c_str headers"
    for acc
    by (induction headers arbitrary: acc) (simp_all add: curl_slist_append_def)
  then show ?thesis by (simp add: build_headers_def)
qed

text \<open>The write callback always accepts what it is offered, so the transfer is never
  aborted by it and the buffer receives every chunk, in order.\<close>

lemma deliver_all: "deliver cs buf = (True, buf @ concat cs)"
  by (induction cs arbitrary: buf) (simp_all add: WriteCallback_def)

lemma curl_easy_perform_eq:
  "curl_easy_perform lib mem h buf eb =
     (perform_code (transfer_of lib (seen mem h)),
      written h (transfer_of lib (seen mem h)) buf,
      errbuf_after h (transfer_of lib (seen mem h)) eb)"
  by (simp add: curl_easy_perform_def deliver_all Let_def written_def errbuf_after_def)

subsection \<open>Runs of option settings\<close>

lemma setopts_append:
  "setopts lib eb (xs @ ys) h =
     (case setopts lib eb xs h of
        (Some e, h') \<Rightarrow> (Some e, h')
      | (None, h') \<Rightarrow> setopts lib eb ys h')"
  by (induction xs arbitrary: h)
     (auto simp: curl_easy_setopt_def Let_def split: prod.splits option.splits)

lemma setopts_accepted:
  "options_accepted lib opts \<Longrightarrow> setopts lib eb opts h = (None, h ++ map_of (rev opts))"
proof (induction opts arbitrary: h)
  case Nil
  then show ?case by simp
next
  case (Cons x opts)
  obtain opt v where x: "x = (opt, v)" by (cases x)
  from Cons.prems have ok: "setopt_code lib opt v = CURLE_OK" and rest: "options_accepted lib opts"
    by (simp_all add: options_accepted_def x)
  have "setopts lib eb (x # opts) h = setopts lib eb opts (h(opt \<mapsto> v))"
    by (simp add: x curl_easy_setopt_def ok TranslateError_ok_iff)
  also have "\<dots> = (None, h(opt \<mapsto> v) ++ map_of (rev opts))"
    by (rule Cons.IH [OF rest])
  also have "h(opt \<mapsto> v) ++ map_of (rev opts) = h ++ map_of (rev (x # opts))"
    by (rule ext) (simp add: x map_add_def split: option.splits)
  finally show ?case .
qed

lemma setopts_refused:
  "\<not> options_accepted lib opts \<Longrightarrow> \<exists>e. fst (setopts lib eb opts h) = Some e"
  by (induction opts arbitrary: h)
     (auto simp: options_accepted_def curl_easy_setopt_def Let_def TranslateError_ok_iff)

lemma setopts_None_accepted:
  "setopts lib eb opts h = (None, h') \<Longrightarrow> options_accepted lib opts"
  using setopts_refused [of lib opts eb h] by (cases "options_accepted lib opts") auto

lemma setopts_Some_refused:
  "setopts lib eb opts h = (Some e, h') \<Longrightarrow> \<not> options_accepted lib opts"
  using setopts_accepted [of lib opts eb h] by auto

lemma example_lib_accepts: "options_accepted (example_lib rc n c) opts"
  by (induction opts) (auto simp: options_accepted_def example_lib_def)

lemma echo_lib_accepts: "options_accepted echo_lib opts"
  by (induction opts) (auto simp: options_accepted_def echo_lib_def)

lemma example_lib_transfer:
  "perform_code (transfer_of (example_lib rc n c) h) = rc"
  "header_text (transfer_of (example_lib rc n c) h) =
     [''Content-Type: text/plain'' @ [CHR 0x0D, CHR 0x0A]]"
  "chunks (transfer_of (example_lib rc n c) h) = [''Hello, '', ''world'']"
  "info (transfer_of (example_lib rc n c) h) CURLINFO_NUM_CONNECTS = (CURLE_OK, n)"
  "info (transfer_of (example_lib rc n c) h) CURLINFO_RESPONSE_CODE = (CURLE_OK, c)"
  by (simp_all add: example_lib_def)

lemma echo_lib_transfer:
  "perform_code (transfer_of echo_lib h) = CURLE_OK"
  "header_text (transfer_of echo_lib h) = []"
  "chunks (transfer_of echo_lib h) =
     (case h CURLOPT_POSTFIELDS of Some (OptString b) \<Rightarrow> [b] | _ \<Rightarrow> [''GET''])"
  "info (transfer_of echo_lib h) CURLINFO_NUM_CONNECTS = (CURLE_OK, 1)"
  "info (transfer_of echo_lib h) CURLINFO_RESPONSE_CODE = (CURLE_OK, 200)"
  by (simp_all add: echo_lib_def)

lemma refusing_lib_accepted:
  "options_accepted (refusing_lib refused) opts \<longleftrightarrow> refused \<notin> fst ` set opts"
  by (induction opts) (auto simp: options_accepted_def refusing_lib_def example_lib_def)

subsection \<open>The transfer and its classification\<close>

lemma perform_and_classify_curl: "curl (self (perform_and_classify lib mem this buf)) = curl this"
  by (simp add: perform_and_classify_def curl_easy_perform_eq curl_easy_getinfo_def Let_def
        split: prod.splits option.splits)

lemma perform_and_classify_released: "released (perform_and_classify lib mem this buf) = []"
  by (simp add: perform_and_classify_def curl_easy_perform_eq curl_easy_getinfo_def Let_def
        split: prod.splits option.splits)

lemma perform_and_classify_dst:
  "dst (perform_and_classify lib mem this buf) =
     written (curl this) (transfer_of lib (seen mem (curl this))) buf"
  by (simp add: perform_and_classify_def curl_easy_perform_eq curl_easy_getinfo_def Let_def
        split: prod.splits option.splits)

lemma perform_and_classify_ret:
  "ret (perform_and_classify lib mem this buf) =
     (let t = transfer_of lib (seen mem (curl this));
          eb = errbuf_after (curl this) t (errbuf this)
      in
      if perform_code t \<noteq> CURLE_OK
      then Returned (TranslateError lib (perform_code t) eb)
      else if fst (info t CURLINFO_NUM_CONNECTS) \<noteq> CURLE_OK
      then Returned (TranslateError lib (fst (info t CURLINFO_NUM_CONNECTS)) eb)
      else if fst (info t CURLINFO_RESPONSE_CODE) \<noteq> CURLE_OK
      then Returned (TranslateError lib (fst (info t CURLINFO_RESPONSE_CODE)) eb)
      else if snd (info t CURLINFO_RESPONSE_CODE) < 200 \<or> 300 \<le> snd (info t CURLINFO_RESPONSE_CODE)
      then (case HTTP_plus (snd (info t CURLINFO_RESPONSE_CODE)) of
              None \<Rightarrow> Undefined
            | Some m \<Rightarrow> Returned (Error_code_msg kRemoteError m))
      else Returned (Error_code kOk))"
  by (simp add: perform_and_classify_def curl_easy_perform_eq curl_easy_getinfo_def Let_def
        TranslateError_ok_iff split: prod.splits option.splits)

lemma perform_and_classify_num_connects:
  "num_connects (self (perform_and_classify lib mem this buf)) =
     (let t = transfer_of lib (seen mem (curl this)) in
      if perform_code t = CURLE_OK \<and> fst (info t CURLINFO_NUM_CONNECTS) = CURLE_OK
      then static_cast_int (snd (info t CURLINFO_NUM_CONNECTS))
      else num_connects this)"
  by (simp add: perform_and_classify_def curl_easy_perform_eq curl_easy_getinfo_def Let_def
        TranslateError_ok_iff split: prod.splits option.splits)

lemma perform_and_classify_self:
  "\<exists>eb n. self (perform_and_classify lib mem this buf) = this\<lparr>errbuf := eb, num_connects := n\<rparr>"
proof -
  let ?t = "transfer_of lib (seen mem (curl this))"
  let ?eb = "errbuf_after (curl this) ?t (errbuf this)"
  have a: "this\<lparr>errbuf := ?eb\<rparr> = this\<lparr>errbuf := ?eb, num_connects := num_connects this\<rparr>"
    by simp
  have "self (perform_and_classify lib mem this buf) = this\<lparr>errbuf := ?eb\<rparr> \<or>
        self (perform_and_classify lib mem this buf) =
          this\<lparr>errbuf := ?eb,
               num_connects := static_cast_int (snd (info ?t CURLINFO_NUM_CONNECTS))\<rparr>"
    by (simp add: perform_and_classify_def curl_easy_perform_eq curl_easy_getinfo_def Let_def
          split: prod.splits option.splits)
  then show ?thesis using a by metis
qed

lemma MakeScopedCleanup_fields:
  "ret (MakeScopedCleanup l c) = ret c" "self (MakeScopedCleanup l c) = self c"
  "dst (MakeScopedCleanup l c) = dst c" "released (MakeScopedCleanup l c) = released c @ [l]"
  by (simp_all add: MakeScopedCleanup_def)

subsection \<open>DoRequest, path by path\<close>

lemma request_options_errbuf:
  "auth_options (this\<lparr>errbuf := eb\<rparr>) = auth_options this"
  "flag_options (this\<lparr>errbuf := eb\<rparr>) = flag_options this"
  "transfer_options (this\<lparr>errbuf := eb\<rparr>) url post_data hs = transfer_options this url post_data hs"
  by (simp_all add: auth_options_def flag_options_def transfer_options_def)

text \<open>The two runs of option settings of \<open>DoRequest\<close>, read as one: the call returns
  the first error, or goes on to the transfer.\<close>

lemma DoRequest_alt:
  "DoRequest lib mem this url post_data dst0 headers =
     (case setopts lib [] (request_options this url post_data headers) (curl this) of
        (Some e, h) \<Rightarrow>
          \<lparr>ret = Returned e, self = this\<lparr>errbuf := [], curl := h\<rparr>, dst = [],
           released = (if options_accepted lib (auth_options this @ flag_options this)
                       then [build_headers headers] else [])\<rparr>
      | (None, h) \<Rightarrow>
          MakeScopedCleanup (build_headers headers)
            (perform_and_classify lib mem (this\<lparr>errbuf := [], curl := h\<rparr>) []))"
proof -
  let ?A = "auth_options this @ flag_options this"
  let ?T = "transfer_options this url post_data (build_headers headers)"
  have ro: "request_options this url post_data headers = ?A @ ?T"
    by (simp add: request_options_def)
  obtain ra hA where A: "setopts lib [] ?A (curl this) = (ra, hA)"
    by (cases "setopts lib [] ?A (curl this)")
  obtain rt hT where T: "setopts lib [] ?T hA = (rt, hT)"
    by (cases "setopts lib [] ?T hA")
  have W: "setopts lib [] (request_options this url post_data headers) (curl this) =
             (case ra of Some e \<Rightarrow> (Some e, hA) | None \<Rightarrow> (rt, hT))"
    unfolding ro setopts_append [of lib "[]" ?A ?T] A using T
    by (simp split: option.splits)
  show ?thesis
  proof (cases ra)
    case (Some e)
    with A have "\<not> options_accepted lib ?A" by (auto dest: setopts_Some_refused)
    with Some show ?thesis
      by (simp add: DoRequest_def Let_def request_options_errbuf A W)
  next
    case None
    with A have acc: "options_accepted lib ?A" by (auto dest: setopts_None_accepted)
    show ?thesis
    proof (cases rt)
      case (Some e)
      with None acc show ?thesis
        by (simp add: DoRequest_def Let_def request_options_errbuf A T W MakeScopedCleanup_def)
    next
      case rtNone: None
      with None show ?thesis
        by (simp add: DoRequest_def Let_def request_options_errbuf A T W)
    qed
  qed
qed

lemma DoRequest_accepted:
  assumes "options_accepted lib (request_options this url post_data headers)"
  shows "DoRequest lib mem this url post_data dst0 headers =
           MakeScopedCleanup (build_headers headers)
             (perform_and_classify lib mem
                (this\<lparr>errbuf := [], curl := handle_at_perform this url post_data headers\<rparr>) [])"
  unfolding DoRequest_alt handle_at_perform_def
  by (simp add: setopts_accepted [OF assms])

lemma DoRequest_refused:
  assumes "\<not> options_accepted lib (request_options this url post_data headers)"
  shows "\<exists>e h. DoRequest lib mem this url post_data dst0 headers =
           \<lparr>ret = Returned e, self = this\<lparr>errbuf := [], curl := h\<rparr>, dst = [],
            released = (if options_accepted lib (auth_options this @ flag_options this)
                        then [build_headers headers] else [])\<rparr>"
proof -
  obtain r h where s: "setopts lib [] (request_options this url post_data headers) (curl this) = (r, h)"
    by (cases "setopts lib [] (request_options this url post_data headers) (curl this)")
  with assms obtain e where "r = Some e"
    by (cases r) (auto dest: setopts_None_accepted)
  then show ?thesis
    unfolding DoRequest_alt s by (intro exI [of _ e] exI [of _ h]) simp
qed

text \<open>A call changes the handle, the error buffer and the connection count of the
  object, and nothing else.\<close>

lemma DoRequest_self:
  "\<exists>h eb n. self (DoRequest lib mem this url post_data dst0 headers) =
     this\<lparr>curl := h, errbuf := eb, num_connects := n\<rparr>"
proof (cases "options_accepted lib (request_options this url post_data headers)")
  case True
  let ?c = "this\<lparr>errbuf := [], curl := handle_at_perform this url post_data headers\<rparr>"
  obtain eb n where "self (perform_and_classify lib mem ?c []) = ?c\<lparr>errbuf := eb, num_connects := n\<rparr>"
    using perform_and_classify_self [of lib mem ?c "[]"] by blast
  then have "self (DoRequest lib mem this url post_data dst0 headers) =
      this\<lparr>curl := handle_at_perform this url post_data headers, errbuf := eb, num_connects := n\<rparr>"
    unfolding DoRequest_accepted [OF True] by (simp add: MakeScopedCleanup_fields)
  then show ?thesis by blast
next
  case False
  from DoRequest_refused [OF False, of mem dst0] obtain h where
    "self (DoRequest lib mem this url post_data dst0 headers) = this\<lparr>errbuf := [], curl := h\<rparr>"
    by auto
  then have "self (DoRequest lib mem this url post_data dst0 headers) =
      this\<lparr>curl := h, errbuf := [], num_connects := num_connects this\<rparr>"
    by simp
  then show ?thesis by blast
qed

lemma DoRequest_keeps_settings:
  "return_headers (self (DoRequest lib mem this url post_data dst0 headers)) = return_headers this"
  "verbose (self (DoRequest lib mem this url post_data dst0 headers)) = verbose this"
  "fail_on_http_error (self (DoRequest lib mem this url post_data dst0 headers)) =
     fail_on_http_error this"
  "timeout_secs (self (DoRequest lib mem this url post_data dst0 headers)) = timeout_secs this"
  "dns_servers (self (DoRequest lib mem this url post_data dst0 headers)) = dns_servers this"
  "auth_type (self (DoRequest lib mem this url post_data dst0 headers)) = auth_type this"
  "username (self (DoRequest lib mem this url post_data dst0 headers)) = username this"
  "password (self (DoRequest lib mem this url post_data dst0 headers)) = password this"
  using DoRequest_self [of lib mem this url post_data dst0 headers] by auto

lemma DoRequest_accepted_curl:
  assumes "options_accepted lib (request_options this url post_data headers)"
  shows "curl (self (DoRequest lib mem this url post_data dst0 headers)) =
           handle_at_perform this url post_data headers"
  unfolding DoRequest_accepted [OF assms]
  by (simp add: MakeScopedCleanup_fields perform_and_classify_curl)

lemma DoRequest_num_connects:
  "num_connects (self (DoRequest lib mem this url post_data dst0 headers)) =
     (if options_accepted lib (request_options this url post_data headers) \<and>
         perform_code (transfer_at lib mem this url post_data headers) = CURLE_OK \<and>
         fst (info (transfer_at lib mem this url post_data headers) CURLINFO_NUM_CONNECTS) = CURLE_OK
      then static_cast_int
             (snd (info (transfer_at lib mem this url post_data headers) CURLINFO_NUM_CONNECTS))
      else num_connects this)"
proof (cases "options_accepted lib (request_options this url post_data headers)")
  case True
  show ?thesis
    unfolding DoRequest_accepted [OF True] transfer_at_def
    by (simp add: True MakeScopedCleanup_fields perform_and_classify_num_connects Let_def)
next
  case False
  from DoRequest_refused [OF False, of mem dst0] show ?thesis
    using False by auto
qed

subsection \<open>The handle the transfer runs on\<close>

lemmas handle_defs = handle_at_perform_def request_options_def auth_options_def
  flag_options_def transfer_options_def map_add_def

lemma handle_flags:
  "handle_at_perform this url post_data headers CURLOPT_VERBOSE =
     (if verbose this then Some (OptLong 1) else curl this CURLOPT_VERBOSE)"
  "handle_at_perform this url post_data headers CURLOPT_FAILONERROR =
     (if fail_on_http_error this then Some (OptLong 1) else curl this CURLOPT_FAILONERROR)"
  "handle_at_perform this url post_data headers CURLOPT_HEADER =
     (if return_headers this then Some (OptLong 1) else curl this CURLOPT_HEADER)"
  by (simp_all add: handle_defs split: option.splits)

lemma handle_timeout:
  "handle_at_perform this url post_data headers CURLOPT_NOSIGNAL =
     (if timeout_secs this > 0 then Some (OptLong 1) else curl this CURLOPT_NOSIGNAL)"
  "handle_at_perform this url post_data headers CURLOPT_TIMEOUT =
     (if timeout_secs this > 0 then Some (OptLong (timeout_secs this))
      else curl this CURLOPT_TIMEOUT)"
  by (simp_all add: handle_defs split: option.splits)

lemma handle_dns:
  "handle_at_perform this url post_data headers CURLOPT_DNS_SERVERS =
     (if dns_servers this \<noteq> [] then Some (OptString (c_str (dns_servers this)))
      else curl this CURLOPT_DNS_SERVERS)"
  by (simp add: handle_defs split: option.splits)

lemma handle_headers:
  "handle_at_perform this url post_data headers CURLOPT_HTTPHEADER =
     Some (OptSlist (map c_str headers))"
  by (simp add: handle_defs build_headers_map split: option.splits)

text \<open>Lines 159-160 register the write callback and the destination on every call that
  reaches the transfer, and the constructor's error buffer stays registered.\<close>

lemma handle_write:
  "handle_at_perform this url post_data headers CURLOPT_WRITEFUNCTION = Some OptWriteCallback"
  "handle_at_perform this url post_data headers CURLOPT_WRITEDATA = Some OptDst"
  "handle_at_perform this url post_data headers CURLOPT_ERRORBUFFER = curl this CURLOPT_ERRORBUFFER"
  by (simp_all add: handle_defs split: option.splits)

text \<open>A GET leaves the body pointer of an earlier POST on the handle.\<close>

lemma handle_post:
  "handle_at_perform this url post_data headers CURLOPT_POSTFIELDS =
     (case post_data of
        None \<Rightarrow> curl this CURLOPT_POSTFIELDS
      | Some p \<Rightarrow> Some (OptPointer p))"
  by (simp add: handle_defs split: option.splits)

lemma handle_auth:
  "handle_at_perform this url post_data headers CURLOPT_HTTPAUTH =
     (if auth_type this = BASIC then Some (OptAuth CURLAUTH_BASIC)
      else if auth_type this = NONE then curl this CURLOPT_HTTPAUTH
      else Some (OptAuth CURLAUTH_ANY))"
  "handle_at_perform this url post_data headers CURLOPT_USERNAME =
     (if auth_type this \<noteq> NONE then Some (OptString (c_str (username this)))
      else curl this CURLOPT_USERNAME)"
  "handle_at_perform this url post_data headers CURLOPT_PASSWORD =
     (if auth_type this \<noteq> NONE then Some (OptString (c_str (password this)))
      else curl this CURLOPT_PASSWORD)"
  by (simp_all add: handle_defs split: option.splits)

lemma DoRequest_accepted_dst:
  assumes "options_accepted lib (request_options this url post_data headers)"
  shows "dst (DoRequest lib mem this url post_data dst0 headers) =
           concat (delivered lib mem this url post_data headers)"
  unfolding DoRequest_accepted [OF assms]
  by (simp add: MakeScopedCleanup_fields perform_and_classify_dst written_def handle_write
        delivered_def transfer_at_def)

lemma switch_off_fields:
  "verbose (switch_off this) = False" "fail_on_http_error (switch_off this) = False"
  "return_headers (switch_off this) = False" "timeout_secs (switch_off this) = 0"
  "dns_servers (switch_off this) = []" "curl (switch_off this) = curl this"
  by (simp_all add: switch_off_def set_verbose_def set_fail_on_http_error_def
        set_return_headers_def set_timeout_def set_dns_servers_def)

lemma configured_client_fields:
  "verbose configured_client = True" "fail_on_http_error configured_client = True"
  "return_headers configured_client = True" "timeout_secs configured_client = 30"
  "dns_servers configured_client = ''192.0.2.1''"
  by (simp_all add: configured_client_def set_verbose_def set_fail_on_http_error_def
        set_return_headers_def set_timeout_def set_dns_servers_def)

section \<open>Error translation\<close>

text \<open>
  C2 (as the code has it). \<open>TranslateError\<close> is a function of the transport code and the
  detail buffer alone. The success code gives \<open>kOk\<close> with an empty message; the timeout
  code gives \<open>kTimedOut\<close> with the message \<open>"curl timeout"\<close> followed by the transport
  diagnostic; every other code gives \<open>kNetworkError\<close> with the message \<open>"curl error"\<close>
  followed by the transport diagnostic. The diagnostic is the generic text of the code,
  extended with \<open>": "\<close> and the detail exactly when the detail is non-empty.
\<close>

theorem TranslateError_cases:
  "TranslateError lib CURLE_OK eb = \<lparr>code = kOk, msg = []\<rparr> \<and>
   TranslateError lib CURLE_OPERATION_TIMEDOUT eb =
     \<lparr>code = kTimedOut,
      msg = ''curl timeout'' @ transport_diagnostic lib CURLE_OPERATION_TIMEDOUT eb\<rparr> \<and>
   (rc \<noteq> CURLE_OK \<longrightarrow> rc \<noteq> CURLE_OPERATION_TIMEDOUT \<longrightarrow>
      TranslateError lib rc eb =
        \<lparr>code = kNetworkError, msg = ''curl error'' @ transport_diagnostic lib rc eb\<rparr>)"
  by (simp add: TranslateError_def transport_diagnostic_def Error_code_def
        Error_code_msg_def Let_def)

theorem TranslateError_cases_witness:
  "CURLE_OTHER 7 \<noteq> CURLE_OK \<and> CURLE_OTHER 7 \<noteq> CURLE_OPERATION_TIMEDOUT \<and>
   TranslateError (example_lib (CURLE_OTHER 7) 0 0) (CURLE_OTHER 7) ''connection refused'' =
     \<lparr>code = kNetworkError, msg = ''curl errorError: connection refused''\<rparr> \<and>
   TranslateError (example_lib (CURLE_OTHER 7) 0 0) CURLE_OPERATION_TIMEDOUT [] =
     \<lparr>code = kTimedOut, msg = ''curl timeoutTimeout was reached''\<rparr>"
  using TranslateError_cases
          [of "example_lib (CURLE_OTHER 7) 0 0" "''connection refused''" "CURLE_OTHER 7"]
        TranslateError_cases [of "example_lib (CURLE_OTHER 7) 0 0" "[]" "CURLE_OTHER 7"]
  by (simp add: transport_diagnostic_def example_lib_def example_strerror_def)

text \<open>The message the spec gives for a timeout, \<open>"request timed out: "\<close> followed by
  the diagnostic, is not the one the code builds.\<close>

theorem TranslateError_prefix_counterexample:
  "msg (TranslateError (example_lib CURLE_OPERATION_TIMEDOUT 0 0) CURLE_OPERATION_TIMEDOUT []) \<noteq>
     ''request timed out: '' @
       transport_diagnostic (example_lib CURLE_OPERATION_TIMEDOUT 0 0) CURLE_OPERATION_TIMEDOUT []"
  by (simp add: TranslateError_def transport_diagnostic_def example_lib_def
        example_strerror_def Error_code_msg_def Let_def)

section \<open>Setters\<close>

text \<open>
  C10. \<open>set_auth\<close> returns \<open>kOk\<close> for every auth type, user name and password, and
  stores all three; an omitted user name or password is stored as the empty string, so
  \<open>set_auth(NONE)\<close> erases the stored credentials.
\<close>

theorem set_auth_stores:
  "fst (set_auth this a u p) = \<lparr>code = kOk, msg = []\<rparr> \<and>
   auth_type (snd (set_auth this a u p)) = a \<and>
   username (snd (set_auth this a u p)) = default_arg u \<and>
   password (snd (set_auth this a u p)) = default_arg p \<and>
   default_arg (Some s) = s \<and> default_arg None = [] \<and>
   username (snd (set_auth this NONE None None)) = [] \<and>
   password (snd (set_auth this NONE None None)) = []"
  by (simp add: set_auth_def default_arg_def Error_code_def)

section \<open>Status classification\<close>

text \<open>
  C1 (what the code does). When every option is accepted, the transfer and both
  \<open>curl_easy_getinfo\<close> queries succeed and the status \<open>c\<close> is outside \<open>[200, 300)\<close>, the
  call builds its message as \<open>"HTTP " + val\<close>, which moves a pointer into the literal by
  \<open>c\<close> bytes instead of appending the decimal digits of \<open>c\<close>. For \<open>0 \<le> c \<le> 5\<close> the call
  returns \<open>kRemoteError\<close> with the last \<open>5 - c\<close> characters of \<open>"HTTP "\<close> as message; for
  every other status the pointer is outside the literal and the behaviour is undefined.
  In no case does the message hold the status code. The flag \<open>fail_on_http_error\<close> plays
  no part.
\<close>

theorem DoRequest_status_outside_2xx:
  assumes "options_accepted lib (request_options this url post_data headers)"
    and "perform_code (transfer_at lib mem this url post_data headers) = CURLE_OK"
    and "info (transfer_at lib mem this url post_data headers) CURLINFO_NUM_CONNECTS = (CURLE_OK, n)"
    and "info (transfer_at lib mem this url post_data headers) CURLINFO_RESPONSE_CODE = (CURLE_OK, c)"
    and "c < 200 \<or> 300 \<le> c"
  shows "ret (DoRequest lib mem this url post_data dst0 headers) =
           (if 0 \<le> c \<and> c \<le> 5
            then Returned \<lparr>code = kRemoteError, msg = drop (nat c) ''HTTP ''\<rparr>
            else Undefined)"
  using assms(2-5)
  unfolding DoRequest_accepted [OF assms(1)] transfer_at_def
  by (simp add: MakeScopedCleanup_fields perform_and_classify_ret HTTP_plus_def
        Error_code_msg_def)

text \<open>A fetch answered with status 404 is undefined; one that ends with status 0 (no HTTP
  status, as for a \<open>file:\<close> URL) returns the message \<open>"HTTP "\<close>.\<close>

theorem DoRequest_status_outside_2xx_witness:
  "options_accepted (example_lib CURLE_OK 1 404)
     (request_options fresh_client ''http://example.org/missing'' None []) \<and>
   perform_code (transfer_at (example_lib CURLE_OK 1 404) (all_memory []) fresh_client
     ''http://example.org/missing'' None []) = CURLE_OK \<and>
   ((404::int) < 200 \<or> (300::int) \<le> 404) \<and>
   ret (FetchURL (example_lib CURLE_OK 1 404) (all_memory []) fresh_client
          ''http://example.org/missing'' [] []) = Undefined \<and>
   ret (FetchURL (example_lib CURLE_OK 1 0) (all_memory []) fresh_client
          ''file:///etc/hostname'' [] []) = Returned \<lparr>code = kRemoteError, msg = ''HTTP ''\<rparr>"
  using DoRequest_status_outside_2xx
          [where lib = "example_lib CURLE_OK 1 404" and mem = "all_memory []"
             and this = fresh_client and url = "''http://example.org/missing''"
             and post_data = None and headers = "[]" and n = 1 and c = 404]
        DoRequest_status_outside_2xx
          [where lib = "example_lib CURLE_OK 1 0" and mem = "all_memory []"
             and this = fresh_client and url = "''file:///etc/hostname''"
             and post_data = None and headers = "[]" and n = 1 and c = 0]
  by (simp add: FetchURL_def example_lib_accepts transfer_at_def example_lib_transfer)



section \<open>Configuration\<close>

text \<open>
  C3 (what the code does). An object with verbose, fail-on-error, header return, a
  timeout of 30 seconds and a DNS override makes one call; then every one of these is
  switched off through its setter (\<open>false\<close>, timeout \<open>0\<close>, empty DNS string) and a
  second call is made. The stored configuration is all off, yet the handle the second
  transfer runs on still carries all six options of the first call, because
  \<open>DoRequest\<close> only ever sets an option and never clears one. The same stored
  configuration on a fresh object runs with none of them.
\<close>

theorem switched_off_options_stay_on_handle:
  "[verbose (switch_off this), fail_on_http_error (switch_off this),
    return_headers (switch_off this)] = [False, False, False] \<and>
   timeout_secs (switch_off this) = 0 \<and> dns_servers (switch_off this) = [] \<and>
   map (curl (self (DoRequest (example_lib CURLE_OK 1 200) mem
                      (switch_off
                         (self (DoRequest (example_lib CURLE_OK 1 200) mem configured_client
                                  ''http://example.org/'' None [] [])))
                      ''http://example.org/'' None [] [])))
     [CURLOPT_VERBOSE, CURLOPT_FAILONERROR, CURLOPT_HEADER, CURLOPT_NOSIGNAL, CURLOPT_TIMEOUT,
      CURLOPT_DNS_SERVERS] =
     [Some (OptLong 1), Some (OptLong 1), Some (OptLong 1), Some (OptLong 1),
      Some (OptLong 30), Some (OptString ''192.0.2.1'')] \<and>
   map (curl (self (DoRequest (example_lib CURLE_OK 1 200) mem (switch_off fresh_client)
                      ''http://example.org/'' None [] [])))
     [CURLOPT_VERBOSE, CURLOPT_FAILONERROR, CURLOPT_HEADER, CURLOPT_NOSIGNAL, CURLOPT_TIMEOUT,
      CURLOPT_DNS_SERVERS] =
     [None, None, None, None, None, None]"
  by (simp add: DoRequest_accepted_curl [OF example_lib_accepts] handle_flags handle_timeout
        handle_dns switch_off_fields configured_client_fields c_str_def fresh_client_def)

text \<open>
  C4. There are auth mode values that are neither \<open>NONE\<close> nor \<open>BASIC\<close> (any
  \<open>static_cast<CurlAuthType>(n)\<close> with \<open>n\<close> other than 0 and 1). For every such value the
  switch takes its \<open>default\<close> branch: the call sets \<open>CURLOPT_HTTPAUTH\<close> to \<open>CURLAUTH_ANY\<close>
  and then the stored user name and password, and when every option is accepted the
  transfer runs on a handle that carries the three.
\<close>

theorem auth_default_branch_any:
  "(\<exists>a. a \<noteq> NONE \<and> a \<noteq> BASIC) \<and>
   (auth_type this \<noteq> NONE \<and> auth_type this \<noteq> BASIC \<longrightarrow>
      auth_options this =
        [(CURLOPT_HTTPAUTH, OptAuth CURLAUTH_ANY),
         (CURLOPT_USERNAME, OptString (c_str (username this))),
         (CURLOPT_PASSWORD, OptString (c_str (password this)))] \<and>
      (options_accepted lib (request_options this url post_data headers) \<longrightarrow>
         curl (self (DoRequest lib mem this url post_data dst0 headers)) CURLOPT_HTTPAUTH =
           Some (OptAuth CURLAUTH_ANY) \<and>
         curl (self (DoRequest lib mem this url post_data dst0 headers)) CURLOPT_USERNAME =
           Some (OptString (c_str (username this))) \<and>
         curl (self (DoRequest lib mem this url post_data dst0 headers)) CURLOPT_PASSWORD =
           Some (OptString (c_str (password this)))))"
proof -
  have "static_cast_CurlAuthType 2 \<noteq> NONE \<and> static_cast_CurlAuthType 2 \<noteq> BASIC"
    by (simp add: NONE_def BASIC_def)
  then have ex: "\<exists>a. a \<noteq> NONE \<and> a \<noteq> BASIC" by blast
  have opts: "auth_options this =
        [(CURLOPT_HTTPAUTH, OptAuth CURLAUTH_ANY),
         (CURLOPT_USERNAME, OptString (c_str (username this))),
         (CURLOPT_PASSWORD, OptString (c_str (password this)))]"
    if "auth_type this \<noteq> NONE" and "auth_type this \<noteq> BASIC"
    using that by (simp add: auth_options_def)
  show ?thesis
    using ex opts by (simp add: DoRequest_accepted_curl handle_auth)
qed

theorem auth_default_branch_any_witness:
  "auth_type (snd (set_auth fresh_client (static_cast_CurlAuthType 2) (Some ''u'') (Some ''p''))) \<noteq>
     NONE \<and>
   auth_type (snd (set_auth fresh_client (static_cast_CurlAuthType 2) (Some ''u'') (Some ''p''))) \<noteq>
     BASIC \<and>
   options_accepted (example_lib CURLE_OK 1 200)
     (request_options
        (snd (set_auth fresh_client (static_cast_CurlAuthType 2) (Some ''u'') (Some ''p'')))
        ''http://example.org/'' None []) \<and>
   map (curl (self (DoRequest (example_lib CURLE_OK 1 200) (all_memory [])
                 (snd (set_auth fresh_client (static_cast_CurlAuthType 2) (Some ''u'') (Some ''p'')))
                 ''http://example.org/'' None [] [])))
     [CURLOPT_HTTPAUTH, CURLOPT_USERNAME, CURLOPT_PASSWORD] =
     [Some (OptAuth CURLAUTH_ANY), Some (OptString ''u''), Some (OptString ''p'')]"
  using auth_default_branch_any
          [where this = "snd (set_auth fresh_client (static_cast_CurlAuthType 2) (Some ''u'')
                                (Some ''p''))"
             and lib = "example_lib CURLE_OK 1 200" and mem = "all_memory []"
             and url = "''http://example.org/''" and post_data = None and headers = "[]"]
  by (simp add: example_lib_accepts set_auth_def default_arg_def c_str_def NONE_def BASIC_def)

text \<open>
  C8 (as the code has it). The only header list a call hands to the transport holds,
  for each given header in the given order and with duplicates kept, the header as a C
  string: its characters before the first NUL. When every option is accepted this is
  the list on the handle the transfer runs on. Headers free of NUL characters are handed
  over unmodified.
\<close>

theorem headers_handed_over:
  "map snd (filter (\<lambda>(opt, v). opt = CURLOPT_HTTPHEADER)
      (request_options this url post_data headers)) = [OptSlist (map c_str headers)] \<and>
   (options_accepted lib (request_options this url post_data headers) \<longrightarrow>
      curl (self (DoRequest lib mem this url post_data dst0 headers)) CURLOPT_HTTPHEADER =
        Some (OptSlist (map c_str headers))) \<and>
   ((\<forall>header \<in> set headers. CHR 0x00 \<notin> set header) \<longrightarrow> map c_str headers = headers)"
proof -
  have "map snd (filter (\<lambda>(opt, v). opt = CURLOPT_HTTPHEADER)
      (request_options this url post_data headers)) = [OptSlist (map c_str headers)]"
    by (simp add: request_options_def auth_options_def flag_options_def transfer_options_def
          build_headers_map split: option.splits)
  moreover have "(\<forall>header \<in> set headers. CHR 0x00 \<notin> set header) \<longrightarrow> map c_str headers = headers"
    by (simp add: map_idI c_str_id)
  ultimately show ?thesis
    by (simp add: DoRequest_accepted_curl handle_headers)
qed

theorem headers_handed_over_witness:
  "options_accepted (example_lib CURLE_OK 1 200)
     (request_options fresh_client ''http://example.org/'' None
        [''Accept: text/html'', ''X-Tag: a'', ''X-Tag: a'']) \<and>
   curl (self (DoRequest (example_lib CURLE_OK 1 200) (all_memory []) fresh_client
                 ''http://example.org/'' None []
                 [''Accept: text/html'', ''X-Tag: a'', ''X-Tag: a''])) CURLOPT_HTTPHEADER =
     Some (OptSlist [''Accept: text/html'', ''X-Tag: a'', ''X-Tag: a''])"
  using headers_handed_over
          [where this = fresh_client and url = "''http://example.org/''" and post_data = None
             and headers = "[''Accept: text/html'', ''X-Tag: a'', ''X-Tag: a'']"
             and lib = "example_lib CURLE_OK 1 200" and mem = "all_memory []"]
  by (simp add: example_lib_accepts c_str_def)

text \<open>A header with an embedded NUL reaches the transport cut off at the NUL.\<close>

theorem header_with_NUL_counterexample:
  "curl (self (DoRequest (example_lib CURLE_OK 1 200) (all_memory []) fresh_client
                 ''http://example.org/'' None []
                 [''X-Tag: a'' @ [CHR 0x00] @ ''b''])) CURLOPT_HTTPHEADER =
     Some (OptSlist [''X-Tag: a'']) \<and>
   [''X-Tag: a''] \<noteq> [''X-Tag: a'' @ [CHR 0x00] @ ''b'']"
  by (simp add: DoRequest_accepted_curl [OF example_lib_accepts] handle_headers c_str_def)

section \<open>State left behind by a call\<close>

text \<open>
  C6 (as the code has it). \<open>num_connects_\<close> is overwritten exactly when every option is
  accepted and the transfer and the connection-count query both succeed; it then holds
  the transport's count cast to \<open>int\<close>, whatever it held before, and that is the count
  itself (a non-negative integer) whenever the count lies in \<open>[0, 2^31)\<close>. After a call
  that returns earlier, \<open>num_connects()\<close> still returns the value from before the call.
\<close>

theorem num_connects_after_call:
  "num_connects (self (DoRequest lib mem this url post_data dst0 headers)) =
     (if options_accepted lib (request_options this url post_data headers) \<and>
         perform_code (transfer_at lib mem this url post_data headers) = CURLE_OK \<and>
         fst (info (transfer_at lib mem this url post_data headers) CURLINFO_NUM_CONNECTS) =
           CURLE_OK
      then static_cast_int
             (snd (info (transfer_at lib mem this url post_data headers) CURLINFO_NUM_CONNECTS))
      else num_connects this) \<and>
   (options_accepted lib (request_options this url post_data headers) \<and>
    perform_code (transfer_at lib mem this url post_data headers) = CURLE_OK \<and>
    info (transfer_at lib mem this url post_data headers) CURLINFO_NUM_CONNECTS = (CURLE_OK, n) \<and>
    0 \<le> n \<and> n < 2 ^ 31 \<longrightarrow>
      num_connects (self (DoRequest lib mem this url post_data dst0 headers)) = n)"
proof -
  have "static_cast_int n = n" if "0 \<le> n" and "n < 2 ^ 31"
    using that by (rule static_cast_int_id)
  then show ?thesis
    by (simp add: DoRequest_num_connects)
qed

theorem num_connects_after_call_witness:
  "options_accepted (example_lib CURLE_OK 2 200)
     (request_options (fresh_client\<lparr>num_connects := 7\<rparr>) ''http://example.org/'' None []) \<and>
   info (transfer_at (example_lib CURLE_OK 2 200) (all_memory [])
           (fresh_client\<lparr>num_connects := 7\<rparr>)
           ''http://example.org/'' None []) CURLINFO_NUM_CONNECTS = (CURLE_OK, 2) \<and>
   (0::int) \<le> 2 \<and> (2::int) < 2 ^ 31 \<and>
   num_connects (self (DoRequest (example_lib CURLE_OK 2 200) (all_memory [])
                         (fresh_client\<lparr>num_connects := 7\<rparr>)
                         ''http://example.org/'' None [] [])) = 2 \<and>
   num_connects (self (DoRequest (example_lib (CURLE_OTHER 7) 0 0) (all_memory [])
                         (fresh_client\<lparr>num_connects := 7\<rparr>)
                         ''http://example.org/'' None [] [])) = 7"
  using num_connects_after_call
          [of "example_lib CURLE_OK 2 200" "all_memory []" "fresh_client\<lparr>num_connects := 7\<rparr>"
              "''http://example.org/''" None "[]" "[]" 2]
        num_connects_after_call
          [of "example_lib (CURLE_OTHER 7) 0 0" "all_memory []"
              "fresh_client\<lparr>num_connects := 7\<rparr>" "''http://example.org/''" None "[]" "[]" 2]
  by (simp add: example_lib_accepts transfer_at_def example_lib_transfer)

text \<open>The same failing call leaves \<open>num_connects()\<close> at 1 after a successful call that
  made one connection, and at 0 on a fresh object: the value is that of an earlier call.\<close>

theorem num_connects_stale_counterexample:
  "num_connects
     (self (DoRequest (example_lib (CURLE_OTHER 7) 0 0) (all_memory [])
              (self (DoRequest (example_lib CURLE_OK 1 200) (all_memory []) fresh_client
                       ''http://example.org/'' None [] []))
              ''http://example.org/'' None [] [])) = 1 \<and>
   num_connects
     (self (DoRequest (example_lib (CURLE_OTHER 7) 0 0) (all_memory []) fresh_client
              ''http://example.org/'' None [] [])) = 0"
  by (simp add: DoRequest_num_connects example_lib_accepts transfer_at_def example_lib_transfer
        static_cast_int_def fresh_client_def)

text \<open>
  C7 (what the code does). What a call returns and leaves in the destination does not
  depend on what the destination held before: \<open>DoRequest\<close>, \<open>FetchURL\<close> and \<open>PostToURL\<close>
  give the same result for any two old contents. Two consecutive identical calls need
  not agree, though. After a \<open>PostToURL\<close> the handle keeps the pointer to that call's
  body, and a \<open>FetchURL\<close> neither clears it nor asks for a GET. Against a transport that
  echoes the request body, on an object that has posted \<open>"a=1"\<close> from a string of the
  caller, a fetch returns \<open>"a=1"\<close>; once the caller has put \<open>"b=2"\<close> into that string,
  the same fetch on the same object returns \<open>"b=2"\<close>. On a fresh object the fetch
  returns \<open>"GET"\<close>.
\<close>

theorem fetch_after_post_reads_old_body:
  "DoRequest lib mem this url post_data d1 headers =
     DoRequest lib mem this url post_data d2 headers \<and>
   FetchURL lib mem this url d1 headers = FetchURL lib mem this url d2 headers \<and>
   PostToURL lib mem this url body d1 headers = PostToURL lib mem this url body d2 headers \<and>
   dst (FetchURL echo_lib (all_memory ''a=1'')
          (self (PostToURL echo_lib (all_memory ''a=1'') fresh_client ''http://example.org/'' 0
                   [] []))
          ''http://example.org/'' [] []) = ''a=1'' \<and>
   dst (FetchURL echo_lib (all_memory ''b=2'')
          (self (FetchURL echo_lib (all_memory ''a=1'')
                   (self (PostToURL echo_lib (all_memory ''a=1'') fresh_client
                            ''http://example.org/'' 0 [] []))
                   ''http://example.org/'' [] []))
          ''http://example.org/'' ''a=1'' []) = ''b=2'' \<and>
   ret (FetchURL echo_lib (all_memory ''b=2'')
          (self (FetchURL echo_lib (all_memory ''a=1'')
                   (self (PostToURL echo_lib (all_memory ''a=1'') fresh_client
                            ''http://example.org/'' 0 [] []))
                   ''http://example.org/'' [] []))
          ''http://example.org/'' ''a=1'' []) = Returned \<lparr>code = kOk, msg = []\<rparr> \<and>
   dst (FetchURL echo_lib (all_memory ''b=2'') fresh_client ''http://example.org/'' [] []) =
     ''GET''"
proof -
  have old: "DoRequest lib mem this url p d1 headers = DoRequest lib mem this url p d2 headers"
    for p
    by (simp add: DoRequest_def)
  text \<open>What a call against the echo transport returns and leaves behind.\<close>
  have ret: "ret (DoRequest echo_lib m c u p d hs) = Returned \<lparr>code = kOk, msg = []\<rparr>"
    for m c u p d hs
    by (simp add: DoRequest_accepted [OF echo_lib_accepts] MakeScopedCleanup_fields
          perform_and_classify_ret echo_lib_transfer Error_code_def)
  have dst: "dst (DoRequest echo_lib m c u p d hs) =
      concat (case map_option (resolve m) (handle_at_perform c u p hs CURLOPT_POSTFIELDS) of
                Some (OptString b) \<Rightarrow> [b] | _ \<Rightarrow> [''GET''])"
    if "handle_at_perform c u p hs CURLOPT_HEADER = None" for m c u p d hs
    using that
    by (simp add: DoRequest_accepted_dst [OF echo_lib_accepts] delivered_def offered_def
          transfer_at_def echo_lib_transfer seen_def)
  have keep: "curl (self (DoRequest echo_lib m c u p d hs)) CURLOPT_POSTFIELDS =
        (case p of None \<Rightarrow> curl c CURLOPT_POSTFIELDS | Some a \<Rightarrow> Some (OptPointer a)) \<and>
      curl (self (DoRequest echo_lib m c u p d hs)) CURLOPT_HEADER =
        (if return_headers c then Some (OptLong 1) else curl c CURLOPT_HEADER) \<and>
      return_headers (self (DoRequest echo_lib m c u p d hs)) = return_headers c"
    for m c u p d hs
    by (simp add: DoRequest_accepted_curl [OF echo_lib_accepts] handle_post handle_flags
          DoRequest_keeps_settings)
  let ?url = "''http://example.org/''"
  define posted where
    "posted = self (DoRequest echo_lib (all_memory ''a=1'') fresh_client ?url (Some 0) [] [])"
  define fetched where
    "fetched = self (DoRequest echo_lib (all_memory ''a=1'') posted ?url None [] [])"
  have fresh: "curl fresh_client CURLOPT_HEADER = None"
    "curl fresh_client CURLOPT_POSTFIELDS = None" "return_headers fresh_client = False"
    by (simp_all add: fresh_client_def)
  have posted: "curl posted CURLOPT_POSTFIELDS = Some (OptPointer 0)"
    "curl posted CURLOPT_HEADER = None" "return_headers posted = False"
    unfolding posted_def by (simp_all add: keep fresh)
  have fetched: "curl fetched CURLOPT_POSTFIELDS = Some (OptPointer 0)"
    "curl fetched CURLOPT_HEADER = None" "return_headers fetched = False"
    unfolding fetched_def by (simp_all add: keep posted)
  have first: "dst (DoRequest echo_lib (all_memory ''a=1'') posted ?url None [] []) = ''a=1''"
    by (simp add: dst handle_flags handle_post posted resolve_def all_memory_def c_str_def)
  have second: "dst (DoRequest echo_lib (all_memory ''b=2'') fetched ?url None ''a=1'' []) = ''b=2''"
    by (simp add: dst handle_flags handle_post fetched resolve_def all_memory_def c_str_def)
  have plain: "dst (DoRequest echo_lib (all_memory ''b=2'') fresh_client ?url None [] []) = ''GET''"
    by (simp add: dst handle_flags handle_post fresh)
  show ?thesis
    using old [of post_data] old [of None] old [of "Some body"] first second plain
    unfolding FetchURL_def PostToURL_def fetched_def posted_def
    by (simp add: ret)
qed

text \<open>
  C9 (as the code has it). The header list is built, and its cleanup registered, after
  the auth, verbose and fail-on-error options have been set. A call that returns on a
  failure of one of those releases nothing, for no list exists yet. On every other exit
  path (a failure of the header, URL or any later option, a failed transfer or query, a
  status outside \<open>[200, 300)\<close>, success) \<open>curl_slist_free_all\<close> runs exactly once, on the
  list built from the given headers.
\<close>

theorem header_list_released:
  "released (DoRequest lib mem this url post_data dst0 headers) =
     (if options_accepted lib (auth_options this @ flag_options this)
      then [build_headers headers] else [])"
proof (cases "options_accepted lib (request_options this url post_data headers)")
  case True
  then have "options_accepted lib (auth_options this @ flag_options this)"
    by (simp add: request_options_def options_accepted_def)
  then show ?thesis
    unfolding DoRequest_accepted [OF True]
    by (simp add: MakeScopedCleanup_fields perform_and_classify_released)
next
  case False
  from DoRequest_refused [OF False, of mem dst0] show ?thesis by auto
qed

theorem header_list_released_witness:
  "released (DoRequest (refusing_lib CURLOPT_URL) (all_memory []) fresh_client
               ''http://example.org/'' None [] [''Accept: */*'']) = [[''Accept: */*'']] \<and>
   released (DoRequest (example_lib (CURLE_OTHER 7) 0 0) (all_memory []) fresh_client
               ''http://example.org/'' None [] [''Accept: */*'']) = [[''Accept: */*'']] \<and>
   released (DoRequest (example_lib CURLE_OK 1 200) (all_memory []) fresh_client
               ''http://example.org/'' None [] [''Accept: */*'']) = [[''Accept: */*'']]"
  using header_list_released
          [of "refusing_lib CURLOPT_URL" "all_memory []" fresh_client "''http://example.org/''"
              None "[]" "[''Accept: */*'']"]
        header_list_released
          [of "example_lib (CURLE_OTHER 7) 0 0" "all_memory []" fresh_client
              "''http://example.org/''" None "[]" "[''Accept: */*'']"]
        header_list_released
          [of "example_lib CURLE_OK 1 200" "all_memory []" fresh_client
              "''http://example.org/''" None "[]" "[''Accept: */*'']"]
  by (simp add: example_lib_accepts refusing_lib_accepted build_headers_map c_str_def
        auth_options_def flag_options_def fresh_client_def)

text \<open>With Basic authentication requested and a transport that refuses
  \<open>CURLOPT_HTTPAUTH\<close>, the call returns a network error at line 122 and
  \<open>curl_slist_free_all\<close> has not run.\<close>

theorem no_release_before_guard_counterexample:
  "ret (DoRequest (refusing_lib CURLOPT_HTTPAUTH) (all_memory [])
          (snd (set_auth fresh_client BASIC (Some ''u'') (Some ''p'')))
          ''http://example.org/'' None [] [''Accept: */*'']) =
     Returned \<lparr>code = kNetworkError, msg = ''curl errorError''\<rparr> \<and>
   released (DoRequest (refusing_lib CURLOPT_HTTPAUTH) (all_memory [])
          (snd (set_auth fresh_client BASIC (Some ''u'') (Some ''p'')))
          ''http://example.org/'' None [] [''Accept: */*'']) = []"
  by (simp add: DoRequest_def auth_options_def flag_options_def set_auth_def fresh_client_def
        curl_easy_setopt_def refusing_lib_def example_lib_def example_strerror_def
        TranslateError_def Error_code_msg_def Let_def)

end
